theory Spec2Isabelle
  imports Complex_Main
begin

section \<open>JavaScript numbers\<close>

text \<open>
  A JavaScript Number is NaN, one of the two infinities, or a finite value. A finite
  value is a real number and zero has no sign; a zero divisor counts as +0, which is
  what the subtraction of two finite coordinates yields. The operations of this section
  are exact on finite values. Rounding to a double is written out further down, for the
  reading of a numeral and for the text that the percent handler shows, where it decides
  the result.
\<close>

datatype number = NaN | PInf | NInf | Fin real

fun isNaN :: "number \<Rightarrow> bool" where
  "isNaN NaN = True"
| "isNaN _ = False"

fun js_neg :: "number \<Rightarrow> number" where
  "js_neg NaN = NaN"
| "js_neg PInf = NInf"
| "js_neg NInf = PInf"
| "js_neg (Fin x) = Fin (- x)"

fun js_add :: "number \<Rightarrow> number \<Rightarrow> number" where
  "js_add (Fin x) (Fin y) = Fin (x + y)"
| "js_add NaN _ = NaN"
| "js_add _ NaN = NaN"
| "js_add PInf NInf = NaN"
| "js_add NInf PInf = NaN"
| "js_add PInf _ = PInf"
| "js_add NInf _ = NInf"
| "js_add _ PInf = PInf"
| "js_add _ NInf = NInf"

definition js_sub :: "number \<Rightarrow> number \<Rightarrow> number" where
  "js_sub a b = js_add a (js_neg b)"

text \<open>The sign of an infinity multiplied or divided by a finite value.\<close>

definition signed_inf :: "bool \<Rightarrow> number" where
  "signed_inf positive = (if positive then PInf else NInf)"

fun js_mul :: "number \<Rightarrow> number \<Rightarrow> number" where
  "js_mul (Fin x) (Fin y) = Fin (x * y)"
| "js_mul NaN _ = NaN"
| "js_mul _ NaN = NaN"
| "js_mul PInf (Fin y) = (if y = 0 then NaN else signed_inf (0 < y))"
| "js_mul NInf (Fin y) = (if y = 0 then NaN else signed_inf (y < 0))"
| "js_mul (Fin x) PInf = (if x = 0 then NaN else signed_inf (0 < x))"
| "js_mul (Fin x) NInf = (if x = 0 then NaN else signed_inf (x < 0))"
| "js_mul PInf PInf = PInf"
| "js_mul NInf NInf = PInf"
| "js_mul PInf NInf = NInf"
| "js_mul NInf PInf = NInf"

fun js_div :: "number \<Rightarrow> number \<Rightarrow> number" where
  "js_div (Fin x) (Fin y) =
     (if y = 0 then (if x = 0 then NaN else signed_inf (0 < x)) else Fin (x / y))"
| "js_div NaN _ = NaN"
| "js_div _ NaN = NaN"
| "js_div (Fin x) PInf = Fin 0"
| "js_div (Fin x) NInf = Fin 0"
| "js_div PInf (Fin y) = signed_inf (0 \<le> y)"
| "js_div NInf (Fin y) = signed_inf (y < 0)"
| "js_div PInf PInf = NaN"
| "js_div PInf NInf = NaN"
| "js_div NInf PInf = NaN"
| "js_div NInf NInf = NaN"

text \<open>
  The remainder operator \<open>%\<close> truncates the quotient towards zero, so the result has
  the sign of the dividend.
\<close>

definition trunc :: "real \<Rightarrow> int" where
  "trunc q = (if 0 \<le> q then \<lfloor>q\<rfloor> else \<lceil>q\<rceil>)"

definition fmod :: "real \<Rightarrow> real \<Rightarrow> real" where
  "fmod x y = x - y * of_int (trunc (x / y))"

fun js_rem :: "number \<Rightarrow> number \<Rightarrow> number" where
  "js_rem (Fin x) (Fin y) = (if y = 0 then NaN else Fin (fmod x y))"
| "js_rem (Fin x) PInf = Fin x"
| "js_rem (Fin x) NInf = Fin x"
| "js_rem _ _ = NaN"

fun js_lt :: "number \<Rightarrow> number \<Rightarrow> bool" where
  "js_lt (Fin x) (Fin y) = (x < y)"
| "js_lt NaN _ = False"
| "js_lt _ NaN = False"
| "js_lt NInf NInf = False"
| "js_lt NInf _ = True"
| "js_lt PInf _ = False"
| "js_lt (Fin x) PInf = True"
| "js_lt (Fin x) NInf = False"

definition js_gt :: "number \<Rightarrow> number \<Rightarrow> bool" where
  "js_gt a b = js_lt b a"

fun Math_abs :: "number \<Rightarrow> number" where
  "Math_abs NaN = NaN"
| "Math_abs PInf = PInf"
| "Math_abs NInf = PInf"
| "Math_abs (Fin x) = Fin \<bar>x\<bar>"

text \<open>\<open>Math.round\<close> rounds to the nearest integer, a tie towards +Infinity.\<close>

fun Math_round :: "number \<Rightarrow> number" where
  "Math_round (Fin x) = Fin (of_int \<lfloor>x + 1 / 2\<rfloor>)"
| "Math_round n = n"

fun Math_floor :: "number \<Rightarrow> number" where
  "Math_floor (Fin x) = Fin (of_int \<lfloor>x\<rfloor>)"
| "Math_floor n = n"

fun Math_atan :: "number \<Rightarrow> number" where
  "Math_atan NaN = NaN"
| "Math_atan PInf = Fin (pi / 2)"
| "Math_atan NInf = Fin (- (pi / 2))"
| "Math_atan (Fin x) = Fin (arctan x)"

fun Math_cos :: "number \<Rightarrow> number" where
  "Math_cos (Fin x) = Fin (cos x)"
| "Math_cos _ = NaN"

fun Math_sin :: "number \<Rightarrow> number" where
  "Math_sin (Fin x) = Fin (sin x)"
| "Math_sin _ = NaN"

text \<open>The Closure library's \<open>goog.math.toDegrees\<close> and \<open>goog.math.toRadians\<close>.\<close>

definition toDegrees :: "number \<Rightarrow> number" where
  "toDegrees angleRadians = js_div (js_mul angleRadians (Fin 180)) (Fin pi)"

definition toRadians :: "number \<Rightarrow> number" where
  "toRadians angleDegrees = js_div (js_mul angleDegrees (Fin pi)) (Fin 180)"

section \<open>Rounding to a double\<close>

text \<open>
  A double is a binary64 number: 53 significant bits, exponents from -1022 to 1023, and
  below that the subnormal numbers, multiples of \<open>2 ^ -1074\<close>. \<open>d64\<close> is the Number
  value of a real: the nearest double, a tie going to the even significand, and an
  infinity for what rounds to \<open>2 ^ 1024\<close> or beyond. \<open>binade\<close> is the exponent of the
  binade of \<open>x\<close>, held at -1022 for the subnormal range.
\<close>

definition pow2 :: "int \<Rightarrow> real" where
  "pow2 k = (if 0 \<le> k then 2 ^ nat k else 1 / 2 ^ nat (- k))"

function ilog2_up :: "real \<Rightarrow> int" where
  "ilog2_up y = (if y < 2 then 0 else 1 + ilog2_up (y / 2))"
  by pat_completeness auto
termination
proof (relation "measure (\<lambda>y. nat \<lceil>y\<rceil>)")
  show "wf (measure (\<lambda>y. nat \<lceil>y\<rceil>))" by simp
next
  fix y :: real
  assume "\<not> y < 2"
  then have y: "2 \<le> y" by simp
  then have "y / 2 \<le> y - 1" by simp
  then have "\<lceil>y / 2\<rceil> \<le> \<lceil>y - 1\<rceil>" by (rule ceiling_mono)
  moreover have "\<lceil>y - 1\<rceil> = \<lceil>y\<rceil> - 1" by simp
  moreover have "2 \<le> \<lceil>y\<rceil>" using y by (simp add: le_ceiling_iff)
  ultimately show "(y / 2, y) \<in> measure (\<lambda>y. nat \<lceil>y\<rceil>)" by simp
qed

function ilog2_down :: "real \<Rightarrow> int" where
  "ilog2_down y = (if y \<le> 0 \<or> 1 \<le> y then 0 else ilog2_down (y * 2) - 1)"
  by pat_completeness auto
termination
proof (relation "measure (\<lambda>y. nat \<lceil>1 / y\<rceil>)")
  show "wf (measure (\<lambda>y. nat \<lceil>1 / y\<rceil>))" by simp
next
  fix y :: real
  assume "\<not> (y \<le> 0 \<or> 1 \<le> y)"
  then have y: "0 < y" "y < 1" by simp_all
  define z where "z = 1 / y"
  have z: "1 < z" using y by (simp add: z_def)
  have half: "1 / (y * 2) = z / 2" by (simp add: z_def)
  have "\<lceil>z / 2\<rceil> < \<lceil>z\<rceil>"
  proof (cases "2 \<le> z")
    case True
    then have "z / 2 \<le> z - 1" by simp
    then have "\<lceil>z / 2\<rceil> \<le> \<lceil>z - 1\<rceil>" by (rule ceiling_mono)
    then show ?thesis by simp
  next
    case False
    then have "z / 2 \<le> 1" by simp
    then have "\<lceil>z / 2\<rceil> \<le> 1" by (simp only: ceiling_le_iff of_int_1)
    moreover have "2 \<le> \<lceil>z\<rceil>" using z by (simp add: le_ceiling_iff)
    ultimately show ?thesis by linarith
  qed
  moreover have "0 < \<lceil>z\<rceil>" using z by (simp add: less_ceiling_iff)
  ultimately have "nat \<lceil>z / 2\<rceil> < nat \<lceil>z\<rceil>" by linarith
  then show "(y * 2, y) \<in> measure (\<lambda>y. nat \<lceil>1 / y\<rceil>)"
    by (simp only: half in_measure z_def [symmetric])
qed

declare ilog2_up.simps [simp del] ilog2_down.simps [simp del]

definition binade :: "real \<Rightarrow> int" where
  "binade x =
     (if \<bar>x\<bar> < pow2 (- 1022) then - 1022
      else if 1 \<le> \<bar>x\<bar> then ilog2_up \<bar>x\<bar>
      else ilog2_down \<bar>x\<bar>)"

definition roundHalfEven :: "real \<Rightarrow> int" where
  "roundHalfEven x =
     (let f = \<lfloor>x\<rfloor>; d = x - of_int f
      in if d < 1 / 2 then f
         else if 1 / 2 < d then f + 1
         else if even f then f else f + 1)"

definition d64 :: "real \<Rightarrow> number" where
  "d64 x =
     (if 2 ^ 1024 \<le> \<bar>x\<bar> then signed_inf (0 < x)
      else
        let q = pow2 (binade x - 52);
            r = of_int (roundHalfEven (x / q)) * q
        in if 2 ^ 1024 \<le> \<bar>r\<bar> then signed_inf (0 < x) else Fin r)"

text \<open>
  The product and the quotient of two doubles, as the machine forms them: the exact
  result, rounded once. \<open>round64\<close> leaves NaN and the infinities as they are.
\<close>

definition round64 :: "number \<Rightarrow> number" where
  "round64 n = (case n of Fin x \<Rightarrow> d64 x | _ \<Rightarrow> n)"

definition mul64 :: "number \<Rightarrow> number \<Rightarrow> number" where
  "mul64 a b = round64 (js_mul a b)"

definition div64 :: "number \<Rightarrow> number \<Rightarrow> number" where
  "div64 a b = round64 (js_div a b)"

section \<open>parseFloat\<close>

text \<open>
  \<open>parseFloat\<close> skips leading white space and reads the longest prefix that is a
  decimal literal: an optional sign, then \<open>Infinity\<close>, or digits with an optional
  fraction and an optional exponent. The exponent is read only when digits follow the
  exponent indicator. With no such prefix the result is NaN. The result is the double
  nearest to the numeral read, an infinity when the numeral is too large. Text is ASCII.
\<close>

definition isDigit :: "char \<Rightarrow> bool" where
  "isDigit c = (c \<in> set ''0123456789'')"

definition isWhiteSpace :: "char \<Rightarrow> bool" where
  "isWhiteSpace c = (c \<in> set [CHR 0x09, CHR 0x0A, CHR 0x0B, CHR 0x0C, CHR 0x0D, CHR 0x20])"

definition digitVal :: "char \<Rightarrow> nat" where
  "digitVal c = of_char c - 48"

definition digitsVal :: "string \<Rightarrow> nat" where
  "digitsVal ds = foldl (\<lambda>a c. 10 * a + digitVal c) 0 ds"

fun startsWith :: "string \<Rightarrow> string \<Rightarrow> bool" where
  "startsWith s [] = True"
| "startsWith [] (p # ps) = False"
| "startsWith (c # cs) (p # ps) = (c = p \<and> startsWith cs ps)"

definition signedInteger :: "string \<Rightarrow> int option" where
  "signedInteger s =
     (case s of
        [] \<Rightarrow> None
      | c # r \<Rightarrow>
          if c = CHR ''-'' then
            (if takeWhile isDigit r = [] then None
             else Some (- int (digitsVal (takeWhile isDigit r))))
          else if c = CHR ''+'' then
            (if takeWhile isDigit r = [] then None
             else Some (int (digitsVal (takeWhile isDigit r))))
          else
            (if takeWhile isDigit s = [] then None
             else Some (int (digitsVal (takeWhile isDigit s)))))"

definition exponentPart :: "string \<Rightarrow> int" where
  "exponentPart s =
     (case s of
        [] \<Rightarrow> 0
      | c # r \<Rightarrow>
          if c = CHR ''e'' \<or> c = CHR ''E'' then
            (case signedInteger r of None \<Rightarrow> 0 | Some k \<Rightarrow> k)
          else 0)"

definition scale10 :: "real \<Rightarrow> int \<Rightarrow> real" where
  "scale10 m k = (if 0 \<le> k then m * 10 ^ nat k else m / 10 ^ nat (- k))"

definition unsignedDecimal :: "string \<Rightarrow> number" where
  "unsignedDecimal s =
     (if startsWith s ''Infinity'' then PInf
      else
        let ip = takeWhile isDigit s; r = dropWhile isDigit s in
        (case r of
           [] \<Rightarrow> if ip = [] then NaN else d64 (real (digitsVal ip))
         | c # r' \<Rightarrow>
             if c = CHR ''.'' then
               (let fp = takeWhile isDigit r'; r'' = dropWhile isDigit r' in
                if ip = [] \<and> fp = [] then NaN
                else d64 (scale10 (real (digitsVal ip) + real (digitsVal fp) / 10 ^ length fp)
                            (exponentPart r'')))
             else if ip = [] then NaN
             else d64 (scale10 (real (digitsVal ip)) (exponentPart r))))"

definition parseFloat :: "string \<Rightarrow> number" where
  "parseFloat s =
     (let t = dropWhile isWhiteSpace s in
      case t of
        [] \<Rightarrow> NaN
      | c # r \<Rightarrow>
          if c = CHR ''-'' then js_neg (unsignedDecimal r)
          else if c = CHR ''+'' then unsignedDecimal r
          else unsignedDecimal t)"

text \<open>
  \<open>text || 0\<close> on a string: the empty string is falsy, so the number 0 is passed on and
  \<open>parseFloat\<close> reads its string form.
\<close>

definition orZero :: "string \<Rightarrow> string" where
  "orZero text = (if text = [] then ''0'' else text)"

section \<open>The two presets\<close>

text \<open>
  The constants that the two fields set on their class: \<open>Blockly.FieldUntiangle\<close>
  (core/field_untiangle.js) and \<open>Blockly.FieldPercent\<close> (the second source file).
\<close>

record config =
  CLOCKWISE :: bool
  OFFSET :: real
  WRAP :: real
  ROUND :: real
  HALF :: real
  HANDLE_RADIUS :: real
  HANDLE_GLOW_WIDTH :: real

definition RADIUS :: "config \<Rightarrow> real" where
  "RADIUS cfg = HALF cfg - HANDLE_RADIUS cfg - HANDLE_GLOW_WIDTH cfg"

definition FieldUntiangle :: config where
  "FieldUntiangle =
     \<lparr>CLOCKWISE = False, OFFSET = 90, WRAP = 180, ROUND = 15, HALF = 120 / 2,
      HANDLE_RADIUS = 10, HANDLE_GLOW_WIDTH = 3\<rparr>"

definition FieldPercent :: config where
  "FieldPercent =
     \<lparr>CLOCKWISE = True, OFFSET = 90, WRAP = 360, ROUND = 3565 / 1000, HALF = 120 / 2,
      HANDLE_RADIUS = 10, HANDLE_GLOW_WIDTH = 3\<rparr>"

section \<open>classValidator\<close>

text \<open>
  \<open>Blockly.FieldUntiangle.prototype.classValidator\<close> and
  \<open>Blockly.FieldPercent.prototype.classValidator\<close>. The validator takes the user's text
  or null (\<open>None\<close>) and returns null (\<open>None\<close>) or the string \<open>String(n)\<close>, kept here
  as the number \<open>n\<close> that it spells.
\<close>

definition classValidator_untiangle :: "string option \<Rightarrow> number option" where
  "classValidator_untiangle text =
     (case text of
        None \<Rightarrow> None
      | Some t \<Rightarrow>
          let n = parseFloat (orZero t) in
          if isNaN n then None
          else
            let n = js_rem n (Fin 360);
                n = (if js_lt n (Fin 0) then js_add n (Fin 360) else n);
                n = (if js_gt n (Fin (WRAP FieldUntiangle)) then js_sub n (Fin 360) else n)
            in Some n)"

definition classValidator_percent :: "string option \<Rightarrow> number option" where
  "classValidator_percent text =
     (case text of
        None \<Rightarrow> None
      | Some t \<Rightarrow>
          let n = parseFloat (orZero t) in
          if isNaN n then None else Some n)"

text \<open>
  Modelled from the spec: the host's field base class (\<open>Blockly.FieldTextInput\<close>, not
  part of these sources) stores the field's value. The value is always the last one
  accepted by the field's validator; a rejected entry never changes it.
\<close>

definition setFromUserText ::
  "(string option \<Rightarrow> number option) \<Rightarrow> string option \<Rightarrow> number \<Rightarrow> number" where
  "setFromUserText validator text valueDegrees =
     (case validator text of None \<Rightarrow> valueDegrees | Some n \<Rightarrow> n)"

section \<open>Calls into the host editor\<close>

text \<open>
  The handlers act on the field only through the host editor: each handler is modelled
  by the list of host calls it makes, in order, with their arguments. A value handed to
  the host is null (\<open>None\<close>) or a number, or the string spelling that number.
\<close>

datatype host_call =
    PreventDefault
  | CallValidator number
  | SetHtmlInputValue "number option"
  | SetValue "number option"
  | Validate
  | ResizeEditor
  | UpdateGraph
  | SuperShowEditor
  | DropDownHideWithoutAnimation
  | DropDownClearContent
  | CreateDialSvg
  | DropDownSetColour
  | DropDownSetCategory
  | DropDownShowPositionedByBlock
  | BindMouseDown

record event =
  clientX :: real
  clientY :: real

record clientRect =
  bBox_left :: real
  bBox_top :: real

section \<open>onMouseMove\<close>

text \<open>
  \<open>Blockly.FieldUntiangle.prototype.onMouseMove\<close> and
  \<open>Blockly.FieldPercent.prototype.onMouseMove\<close>. The event gives the pointer's position
  and the dial's bounding box its corner; all four are finite.
  Both presets compute the angle under the pointer with the same lines: first the angle
  of the pointer's offset from the centre of the dial, turned into the field's direction
  and offset (\<open>None\<close> is the early return taken when \<open>Math.atan\<close> yields NaN), then
  the rounding to a multiple of \<open>ROUND\<close>.
\<close>

definition atanAngle :: "real \<Rightarrow> real \<Rightarrow> number" where
  "atanAngle dx dy = Math_atan (js_div (js_neg (Fin dy)) (Fin dx))"

definition rawAngle :: "config \<Rightarrow> real \<Rightarrow> real \<Rightarrow> number option" where
  "rawAngle cfg dx dy =
     (let angle = atanAngle dx dy in
      if isNaN angle then None
      else
        let angle = toDegrees angle;
            angle = (if dx < 0 then js_add angle (Fin 180)
                     else if dy > 0 then js_add angle (Fin 360)
                     else angle);
            angle = (if CLOCKWISE cfg then js_sub (js_add (Fin (OFFSET cfg)) (Fin 360)) angle
                     else js_sub angle (Fin (OFFSET cfg)))
        in Some angle)"

definition roundAngle :: "config \<Rightarrow> number \<Rightarrow> number" where
  "roundAngle cfg angle =
     (if ROUND cfg \<noteq> 0
      then js_mul (Math_round (js_div angle (Fin (ROUND cfg)))) (Fin (ROUND cfg))
      else angle)"

definition mouseAngle :: "config \<Rightarrow> real \<Rightarrow> real \<Rightarrow> number option" where
  "mouseAngle cfg dx dy =
     (case rawAngle cfg dx dy of
        None \<Rightarrow> None
      | Some angle \<Rightarrow> Some (roundAngle cfg angle))"

definition onMouseMove_untiangle ::
  "(number \<Rightarrow> number option) \<Rightarrow> event \<Rightarrow> clientRect \<Rightarrow> host_call list" where
  "onMouseMove_untiangle callValidator e bBox =
     (let dx = clientX e - bBox_left bBox - HALF FieldUntiangle;
          dy = clientY e - bBox_top bBox - HALF FieldUntiangle
      in case mouseAngle FieldUntiangle dx dy of
           None \<Rightarrow> [PreventDefault]
         | Some angle \<Rightarrow>
             let validated = callValidator angle in
             [PreventDefault, CallValidator angle, SetHtmlInputValue validated,
              SetValue validated, Validate, ResizeEditor])"

definition onMouseMove_percent :: "event \<Rightarrow> clientRect \<Rightarrow> host_call list" where
  "onMouseMove_percent e bBox =
     (let dx = clientX e - bBox_left bBox - HALF FieldPercent;
          dy = clientY e - bBox_top bBox - HALF FieldPercent
      in case mouseAngle FieldPercent dx dy of
           None \<Rightarrow> [PreventDefault]
         | Some angle \<Rightarrow>
             let tmp = js_rem angle (Fin 360) in
             [PreventDefault,
              SetHtmlInputValue (Some (Math_floor (js_div tmp (Fin (ROUND FieldPercent))))),
              SetValue (Some angle), Validate, ResizeEditor])"

text \<open>
  In the percent handler the angle is rounded by a product of doubles and the text shown
  is cut from a quotient of doubles by \<open>Math.floor\<close>, so there the rounding of each
  operation decides the digit shown. \<open>roundAngle64\<close> and \<open>onMouseMove_percent64\<close> are
  the same lines of the handler with the constant \<open>ROUND\<close>, the product and the quotients
  as doubles; \<open>%\<close>, \<open>Math.round\<close> and \<open>Math.floor\<close> are exact on doubles. The angle
  before rounding is the exact one rounded to its double: \<open>Math.round\<close> absorbs what
  the arc tangent and the conversion to degrees lose, except at a tie.
\<close>

definition roundAngle64 :: "config \<Rightarrow> number \<Rightarrow> number" where
  "roundAngle64 cfg angle =
     (if ROUND cfg \<noteq> 0
      then mul64 (Math_round (div64 angle (d64 (ROUND cfg)))) (d64 (ROUND cfg))
      else angle)"

definition onMouseMove_percent64 :: "event \<Rightarrow> clientRect \<Rightarrow> host_call list" where
  "onMouseMove_percent64 e bBox =
     (let dx = clientX e - bBox_left bBox - HALF FieldPercent;
          dy = clientY e - bBox_top bBox - HALF FieldPercent
      in case rawAngle FieldPercent dx dy of
           None \<Rightarrow> [PreventDefault]
         | Some raw \<Rightarrow>
             let angle = roundAngle64 FieldPercent (round64 raw);
                 tmp = js_rem angle (Fin 360)
             in [PreventDefault,
                 SetHtmlInputValue
                   (Some (Math_floor (div64 tmp (d64 (ROUND FieldPercent))))),
                 SetValue (Some angle), Validate, ResizeEditor])"

section \<open>showEditor\<close>

text \<open>
  \<open>Blockly.FieldUntiangle.prototype.showEditor_\<close> and
  \<open>Blockly.FieldPercent.prototype.showEditor_\<close>. Both open the drop-down and build the
  dial in the same way; the percent field then rescales its value before the redraw.
  The argument \<open>text\<close> is \<open>Number(this.getText())\<close>, the numeric reading of the text the
  field displays when the editor opens.
\<close>

definition openDropDown :: "host_call list" where
  "openDropDown =
     [SuperShowEditor, DropDownHideWithoutAnimation, DropDownClearContent, CreateDialSvg,
      DropDownSetColour, DropDownSetCategory, DropDownShowPositionedByBlock, BindMouseDown]"

definition showEditor_untiangle :: "number \<Rightarrow> host_call list" where
  "showEditor_untiangle text = openDropDown @ [UpdateGraph]"

definition showEditor_percent :: "number \<Rightarrow> host_call list" where
  "showEditor_percent text =
     (let reset_percent = js_mul text (Fin (ROUND FieldPercent)) in
      openDropDown @ [CallValidator reset_percent, SetValue (Some reset_percent), UpdateGraph])"

section \<open>updateGraph\<close>

text \<open>
  \<open>updateGraph_\<close>, the same in both fields but for the constants. The argument \<open>gauge\<close>
  tells whether \<open>this.gauge_\<close> is set and \<open>text\<close> is \<open>Number(this.getText())\<close>.
  The redraw returns nothing when there is no gauge. Otherwise it sets the end point of
  the moving line and of the handle, and for a value that is a number also the arc of
  the gauge's path and the rotation of the arrow image.
\<close>

record arc =
  x1 :: number
  y1 :: number
  largeFlag :: int
  sweepFlag :: int

record graph =
  gaugeArc :: "arc option"
  imageRotation :: "number option"
  x2 :: number
  y2 :: number

definition updateGraph :: "config \<Rightarrow> bool \<Rightarrow> number \<Rightarrow> graph option" where
  "updateGraph cfg gauge text =
     (if \<not> gauge then None
      else
        let angleDegrees = js_add (js_rem text (Fin 360)) (Fin (OFFSET cfg));
            angleRadians = toRadians angleDegrees
        in
        if \<not> isNaN angleRadians then
          let angle1 = toRadians (Fin (OFFSET cfg));
              px1 = js_mul (Math_cos angle1) (Fin (RADIUS cfg));
              py1 = js_mul (Math_sin angle1) (js_neg (Fin (RADIUS cfg)));
              angleRadians = (if CLOCKWISE cfg then js_sub (js_mul (Fin 2) angle1) angleRadians
                              else angleRadians);
              px2 = js_add (Fin (HALF cfg)) (js_mul (Math_cos angleRadians) (Fin (RADIUS cfg)));
              py2 = js_sub (Fin (HALF cfg)) (js_mul (Math_sin angleRadians) (Fin (RADIUS cfg)));
              large = (if js_gt (Math_abs (js_sub angleDegrees (Fin (OFFSET cfg)))) (Fin 180)
                       then 1 else 0);
              sweep = (if CLOCKWISE cfg then 1 else 0);
              sweep = (if js_lt angleDegrees (Fin (OFFSET cfg)) then 1 - sweep else sweep);
              rotation = (if CLOCKWISE cfg
                          then js_add angleDegrees (js_mul (Fin 2) (Fin (OFFSET cfg)))
                          else js_neg angleDegrees)
          in Some \<lparr>gaugeArc = Some \<lparr>x1 = px1, y1 = py1, largeFlag = large, sweepFlag = sweep\<rparr>,
                   imageRotation = Some rotation, x2 = px2, y2 = py2\<rparr>
        else Some \<lparr>gaugeArc = None, imageRotation = None,
                   x2 = Fin (HALF cfg), y2 = Fin (HALF cfg)\<rparr>)"

section \<open>Notions used to state the results\<close>

text \<open>
  The angle of the pointer in degrees as real numbers, for a pointer that is not at the
  centre: the arc tangent in degrees, and the angle after the quadrant is restored.
\<close>

definition atanDegrees :: "real \<Rightarrow> real \<Rightarrow> real" where
  "atanDegrees dx dy =
     (if dx = 0 then (if dy < 0 then 90 else - 90) else arctan (- dy / dx) * 180 / pi)"

definition quadrantDegrees :: "real \<Rightarrow> real \<Rightarrow> real" where
  "quadrantDegrees dx dy =
     (if dx < 0 then atanDegrees dx dy + 180
      else if dy > 0 then atanDegrees dx dy + 360
      else atanDegrees dx dy)"

text \<open>
  The angle, in radians, at which the redraw places the handle for a finite value.
\<close>

definition pointRadians :: "config \<Rightarrow> real \<Rightarrow> real" where
  "pointRadians cfg v =
     (if CLOCKWISE cfg
      then 2 * (OFFSET cfg * pi / 180) - (fmod v 360 + OFFSET cfg) * pi / 180
      else (fmod v 360 + OFFSET cfg) * pi / 180)"

section \<open>The remainder\<close>



section \<open>The validators\<close>

lemmas d64_eval =
  d64_def binade_def pow2_def roundHalfEven_def ilog2_up.simps ilog2_down.simps
  signed_inf_def Let_def

lemmas parseFloat_eval =
  parseFloat_def unsignedDecimal_def isDigit_def isWhiteSpace_def digitsVal_def digitVal_def
  exponentPart_def scale10_def signedInteger_def orZero_def d64_eval






text \<open>
  C3. Whenever the text given to the percent validator reads as a finite number, the
  validator returns that number unchanged, with no wrap-around and no clamping; the text
  "abc" is rejected with null, and the field then keeps the value it held before.
\<close>

theorem classValidator_percent_identity:
  assumes "parseFloat (orZero text) = Fin v"
  shows "classValidator_percent (Some text) = Some (Fin v)
         \<and> classValidator_percent (Some ''abc'') = None
         \<and> setFromUserText classValidator_percent (Some ''abc'') prior = prior"
proof -
  have abc: "classValidator_percent (Some ''abc'') = None"
    by (simp add: classValidator_percent_def parseFloat_eval)
  have "classValidator_percent (Some text) = Some (Fin v)"
    using assms by (simp add: classValidator_percent_def)
  then show ?thesis by (simp add: abc setFromUserText_def)
qed

theorem classValidator_percent_identity_witness:
  "parseFloat (orZero ''-725.25'') = Fin (- 2901 / 4)
   \<and> classValidator_percent (Some ''-725.25'') = Some (Fin (- 2901 / 4))
   \<and> classValidator_percent (Some ''abc'') = None
   \<and> setFromUserText classValidator_percent (Some ''abc'') (Fin 42) = Fin 42"
proof -
  have h: "parseFloat (orZero ''-725.25'') = Fin (- 2901 / 4)"
    by (simp add: parseFloat_eval)
  show ?thesis
    using h classValidator_percent_identity [OF h, of "Fin 42"] by simp
qed

text \<open>
  C10 as stated fails at the empty text: \<open>parseFloat\<close> of it is NaN, and yet neither
  validator rejects it.
\<close>

theorem classValidator_empty_text_counterexample:
  "isNaN (parseFloat '''')
   \<and> classValidator_untiangle (Some '''') = Some (Fin 0)
   \<and> classValidator_percent (Some '''') = Some (Fin 0)"
  by (simp add: classValidator_untiangle_def classValidator_percent_def parseFloat_eval
      FieldUntiangle_def fmod_def trunc_def js_gt_def js_sub_def)

text \<open>
  C10, as amended. Both validators reject exactly when the text is null or
  \<open>parseFloat(text || 0)\<close> is NaN, where \<open>text || 0\<close> replaces the empty text by 0. So
  "12abc" is accepted as 12, its numeric prefix, and the empty text is accepted as 0.
\<close>

theorem classValidator_rejects_iff:
  "(classValidator_untiangle text = None)
     = (text = None \<or> (\<exists>t. text = Some t \<and> isNaN (parseFloat (orZero t))))
   \<and> (classValidator_percent text = None)
     = (text = None \<or> (\<exists>t. text = Some t \<and> isNaN (parseFloat (orZero t))))
   \<and> orZero '''' = ''0'' \<and> orZero ''12abc'' = ''12abc''
   \<and> classValidator_untiangle (Some ''12abc'') = Some (Fin 12)
   \<and> classValidator_percent (Some ''12abc'') = Some (Fin 12)
   \<and> classValidator_untiangle (Some '''') = Some (Fin 0)
   \<and> classValidator_percent (Some '''') = Some (Fin 0)"
proof -
  have u: "(classValidator_untiangle text = None)
     = (text = None \<or> (\<exists>t. text = Some t \<and> isNaN (parseFloat (orZero t))))"
    by (cases "text") (simp_all add: classValidator_untiangle_def Let_def)
  have p: "(classValidator_percent text = None)
     = (text = None \<or> (\<exists>t. text = Some t \<and> isNaN (parseFloat (orZero t))))"
    by (cases "text") (simp_all add: classValidator_percent_def Let_def)
  have e: "orZero '''' = ''0'' \<and> orZero ''12abc'' = ''12abc''
   \<and> classValidator_untiangle (Some ''12abc'') = Some (Fin 12)
   \<and> classValidator_percent (Some ''12abc'') = Some (Fin 12)
   \<and> classValidator_untiangle (Some '''') = Some (Fin 0)
   \<and> classValidator_percent (Some '''') = Some (Fin 0)"
    by (simp add: classValidator_untiangle_def classValidator_percent_def parseFloat_eval
      FieldUntiangle_def fmod_def trunc_def js_gt_def js_sub_def)
  show ?thesis using u p e by blast
qed

section \<open>The angle under the pointer\<close>

lemma atanAngle_eq:
  "atanAngle dx dy =
     (if dx = 0 then (if dy = 0 then NaN else if dy < 0 then Fin (pi / 2) else Fin (- (pi / 2)))
      else Fin (arctan (- dy / dx)))"
  by (simp add: atanAngle_def signed_inf_def)

lemma atanAngle_isNaN: "isNaN (atanAngle dx dy) = (dx = 0 \<and> dy = 0)"
  by (simp add: atanAngle_eq)

lemma toDegrees_atanAngle:
  "\<not> (dx = 0 \<and> dy = 0) \<Longrightarrow> toDegrees (atanAngle dx dy) = Fin (atanDegrees dx dy)"
  by (auto simp add: atanAngle_eq toDegrees_def atanDegrees_def)

lemma rawAngle_center: "rawAngle cfg 0 0 = None"
  by (simp add: rawAngle_def atanAngle_eq)

lemma rawAngle_eq:
  "\<not> (dx = 0 \<and> dy = 0) \<Longrightarrow>
   rawAngle cfg dx dy =
     Some (Fin (if CLOCKWISE cfg then OFFSET cfg + 360 - quadrantDegrees dx dy
                else quadrantDegrees dx dy - OFFSET cfg))"
  by (simp add: rawAngle_def atanAngle_isNaN toDegrees_atanAngle quadrantDegrees_def
      js_sub_def Let_def)

lemma roundAngle_Fin:
  "roundAngle cfg (Fin a) =
     Fin (if ROUND cfg \<noteq> 0 then of_int \<lfloor>a / ROUND cfg + 1 / 2\<rfloor> * ROUND cfg else a)"
  by (simp add: roundAngle_def)

lemma mouseAngle_center: "mouseAngle cfg 0 0 = None"
  by (simp add: mouseAngle_def rawAngle_center)

lemma mouseAngle_eq:
  "\<not> (dx = 0 \<and> dy = 0) \<Longrightarrow>
   mouseAngle cfg dx dy =
     Some (roundAngle cfg (Fin (if CLOCKWISE cfg then OFFSET cfg + 360 - quadrantDegrees dx dy
                                else quadrantDegrees dx dy - OFFSET cfg)))"
  by (simp add: mouseAngle_def rawAngle_eq)

lemma mouseAngle_None: "(mouseAngle cfg dx dy = None) = (dx = 0 \<and> dy = 0)"
proof (cases "dx = 0 \<and> dy = 0")
  case True
  then show ?thesis by (simp add: mouseAngle_center)
next
  case False
  then show ?thesis by (simp add: mouseAngle_eq)
qed

text \<open>
  C4. For finite pointer offsets \<open>dx\<close> and \<open>dy\<close>, \<open>Math.atan(-dy / dx)\<close> is NaN exactly
  when both are zero. In both presets the mouse-move handler then returns having only
  called \<open>preventDefault\<close> on the event: it sets no value and no text, and it does so for
  no other pointer position.
\<close>

theorem onMouseMove_center_ignored:
  "isNaN (atanAngle dx dy) = (dx = 0 \<and> dy = 0)
   \<and> (onMouseMove_untiangle callValidator e bBox = [PreventDefault])
       = (clientX e - bBox_left bBox - 60 = 0 \<and> clientY e - bBox_top bBox - 60 = 0)
   \<and> (onMouseMove_percent e bBox = [PreventDefault])
       = (clientX e - bBox_left bBox - 60 = 0 \<and> clientY e - bBox_top bBox - 60 = 0)"
proof -
  let ?dx = "clientX e - bBox_left bBox - 60" and ?dy = "clientY e - bBox_top bBox - 60"
  have hu: "HALF FieldUntiangle = 60" and hp: "HALF FieldPercent = 60"
    by (simp_all add: FieldUntiangle_def FieldPercent_def)
  have u: "(onMouseMove_untiangle callValidator e bBox = [PreventDefault]) = (?dx = 0 \<and> ?dy = 0)"
  proof (cases "mouseAngle FieldUntiangle ?dx ?dy")
    case None
    then show ?thesis
      using mouseAngle_None [of FieldUntiangle ?dx ?dy]
      by (auto simp add: onMouseMove_untiangle_def hu Let_def)
  next
    case (Some angle)
    then show ?thesis
      using mouseAngle_None [of FieldUntiangle ?dx ?dy]
      by (auto simp add: onMouseMove_untiangle_def hu Let_def)
  qed
  have p: "(onMouseMove_percent e bBox = [PreventDefault]) = (?dx = 0 \<and> ?dy = 0)"
  proof (cases "mouseAngle FieldPercent ?dx ?dy")
    case None
    then show ?thesis
      using mouseAngle_None [of FieldPercent ?dx ?dy]
      by (auto simp add: onMouseMove_percent_def hp Let_def)
  next
    case (Some angle)
    then show ?thesis
      using mouseAngle_None [of FieldPercent ?dx ?dy]
      by (auto simp add: onMouseMove_percent_def hp Let_def)
  qed
  show ?thesis using u p atanAngle_isNaN [of dx dy] by blast
qed

text \<open>
  C7. In the untiangle preset, where \<open>ROUND = 15\<close>, the angle that the mouse-move
  handler computes, before the validator sees it, is an integer multiple of 15 for every
  pointer position other than the centre.
\<close>

theorem mouseAngle_untiangle_multiple_of_15:
  assumes "\<not> (dx = 0 \<and> dy = 0)"
  shows "\<exists>k::int. mouseAngle FieldUntiangle dx dy = Some (Fin (15 * of_int k))"
proof -
  have "ROUND FieldUntiangle = 15" by (simp add: FieldUntiangle_def)
  then show ?thesis
    using mouseAngle_eq [OF assms, of FieldUntiangle] by (simp add: roundAngle_Fin)
qed

theorem mouseAngle_untiangle_multiple_of_15_witness:
  "\<not> ((0::real) = 0 \<and> (- 50::real) = 0)
   \<and> (\<exists>k::int. mouseAngle FieldUntiangle 0 (- 50) = Some (Fin (15 * of_int k)))"
  using mouseAngle_untiangle_multiple_of_15 [of 0 "- 50"] by simp

lemma mouseAngle_finite:
  "mouseAngle cfg dx dy = Some angle \<Longrightarrow> \<exists>r. angle = Fin r"
proof -
  assume a: "mouseAngle cfg dx dy = Some angle"
  then have "\<not> (dx = 0 \<and> dy = 0)" using mouseAngle_None [of cfg dx dy] by auto
  then have "mouseAngle cfg dx dy =
     Some (roundAngle cfg (Fin (if CLOCKWISE cfg then OFFSET cfg + 360 - quadrantDegrees dx dy
                                else quadrantDegrees dx dy - OFFSET cfg)))"
    by (rule mouseAngle_eq)
  then show ?thesis using a by (auto simp add: roundAngle_Fin)
qed

text \<open>
  C5 as stated fails: with the pointer 50 pixels straight above the centre the arc
  tangent is a number, and the percent handler does not stop after \<open>preventDefault\<close>.
\<close>

theorem onMouseMove_percent_straight_up_counterexample:
  "\<not> isNaN (atanAngle 0 (- 50))
   \<and> onMouseMove_percent \<lparr>clientX = 60, clientY = 10\<rparr> \<lparr>bBox_left = 0, bBox_top = 0\<rparr>
       \<noteq> [PreventDefault]"
  by (simp add: onMouseMove_percent_def FieldPercent_def mouseAngle_def rawAngle_def
      roundAngle_def atanAngle_def signed_inf_def toDegrees_def js_sub_def fmod_def trunc_def)

text \<open>
  C5, as amended. A pointer-move event at \<open>dx = 0\<close>, \<open>dy = -50\<close> in the percent preset
  (clockwise, offset 90) is not degenerate: \<open>-dy / dx\<close> is +Infinity, whose arc tangent
  is a quarter turn, so the angle before rounding is 360 and the handler goes on: it
  shows 0 and commits 360.065, which is 101 times 3.565. For no event at all does the
  percent handler pass NaN or null to \<open>setValue\<close>.
\<close>

theorem onMouseMove_percent_straight_up:
  "atanAngle 0 (- 50) = Fin (pi / 2)
   \<and> rawAngle FieldPercent 0 (- 50) = Some (Fin 360)
   \<and> onMouseMove_percent \<lparr>clientX = bBox_left bBox + 60, clientY = bBox_top bBox + 10\<rparr> bBox
       = [PreventDefault, SetHtmlInputValue (Some (Fin 0)), SetValue (Some (Fin (72013 / 200))),
          Validate, ResizeEditor]
   \<and> SetValue (Some NaN) \<notin> set (onMouseMove_percent e bBox)
   \<and> SetValue None \<notin> set (onMouseMove_percent e bBox)"
proof -
  have a: "atanAngle 0 (- 50) = Fin (pi / 2)" by (simp add: atanAngle_eq)
  have r: "rawAngle FieldPercent 0 (- 50) = Some (Fin 360)"
    by (simp add: rawAngle_def a toDegrees_def FieldPercent_def js_sub_def)
  have m: "mouseAngle FieldPercent 0 (- 50) = Some (Fin (72013 / 200))"
  proof -
    have "roundAngle FieldPercent (Fin 360) = Fin (72013 / 200)"
      by (simp add: roundAngle_def FieldPercent_def)
    then show ?thesis by (simp add: mouseAngle_def r)
  qed
  have t: "onMouseMove_percent \<lparr>clientX = bBox_left bBox + 60, clientY = bBox_top bBox + 10\<rparr> bBox
       = [PreventDefault, SetHtmlInputValue (Some (Fin 0)), SetValue (Some (Fin (72013 / 200))),
          Validate, ResizeEditor]"
    using m by (simp add: onMouseMove_percent_def FieldPercent_def fmod_def trunc_def)
  have n: "SetValue (Some NaN) \<notin> set (onMouseMove_percent e bBox)
      \<and> SetValue None \<notin> set (onMouseMove_percent e bBox)"
  proof (cases "mouseAngle FieldPercent (clientX e - bBox_left bBox - HALF FieldPercent)
      (clientY e - bBox_top bBox - HALF FieldPercent)")
    case None
    then show ?thesis by (simp add: onMouseMove_percent_def)
  next
    case (Some angle)
    then obtain r where "angle = Fin r" using mouseAngle_finite by blast
    then show ?thesis using Some by (simp add: onMouseMove_percent_def Let_def)
  qed
  show ?thesis using a r t n by blast
qed

section \<open>The gauge\<close>

text \<open>
  C6. When the field's text reads as a finite number \<open>v\<close>, the redraw builds the arc
  with \<open>effective = v % 360 + OFFSET\<close>: the large-arc flag is 1 exactly when
  \<open>|effective - OFFSET| > 180\<close> and 0 otherwise, and the sweep flag is the clockwise
  boolean as a number, replaced by one minus itself exactly when \<open>effective < OFFSET\<close>.
\<close>

theorem updateGraph_arc_flags:
  "\<exists>g a. updateGraph cfg True (Fin v) = Some g \<and> gaugeArc g = Some a
     \<and> largeFlag a = (if \<bar>(fmod v 360 + OFFSET cfg) - OFFSET cfg\<bar> > 180 then 1 else 0)
     \<and> sweepFlag a =
         (if fmod v 360 + OFFSET cfg < OFFSET cfg
          then 1 - (if CLOCKWISE cfg then 1 else 0)
          else (if CLOCKWISE cfg then 1 else 0))"
  by (simp add: updateGraph_def toRadians_def js_gt_def js_sub_def Let_def)

section \<open>Opening the editor\<close>

text \<open>
  C8. Opening the editor on a percent field calls \<open>setValue\<close> with
  \<open>Number(text) * 3.565\<close>, and the redraw of the dial comes only after that call. Opening
  it on an untiangle field redraws the dial and calls \<open>setValue\<close> with nothing.
\<close>

theorem showEditor_percent_rescales:
  "(\<exists>before after.
      showEditor_percent text
        = before @ SetValue (Some (js_mul text (Fin (3565 / 1000)))) # after
      \<and> UpdateGraph \<notin> set before \<and> UpdateGraph \<in> set after)
   \<and> (\<forall>v. SetValue v \<notin> set (showEditor_untiangle text))
   \<and> UpdateGraph \<in> set (showEditor_untiangle text)"
proof -
  have "showEditor_percent text
        = (openDropDown @ [CallValidator (js_mul text (Fin (3565 / 1000)))])
          @ SetValue (Some (js_mul text (Fin (3565 / 1000)))) # [UpdateGraph]"
    by (simp add: showEditor_percent_def FieldPercent_def Let_def)
  moreover have "UpdateGraph \<notin> set (openDropDown @ [CallValidator (js_mul text (Fin (3565 / 1000)))])"
    by (simp add: openDropDown_def)
  moreover have "UpdateGraph \<in> set [UpdateGraph]" by simp
  ultimately have p: "\<exists>before after.
      showEditor_percent text
        = before @ SetValue (Some (js_mul text (Fin (3565 / 1000)))) # after
      \<and> UpdateGraph \<notin> set before \<and> UpdateGraph \<in> set after"
    by blast
  have u: "(\<forall>v. SetValue v \<notin> set (showEditor_untiangle text))
      \<and> UpdateGraph \<in> set (showEditor_untiangle text)"
    by (simp add: showEditor_untiangle_def openDropDown_def)
  show ?thesis using p u by blast
qed

section \<open>What the mouse-move handlers show and commit\<close>

text \<open>
  With the arithmetic of doubles the percent handler stops after \<open>preventDefault\<close> for
  the same events as with exact arithmetic: those at the centre of the dial.
\<close>

lemma onMouseMove_percent64_center:
  "(onMouseMove_percent64 e bBox = [PreventDefault])
     = (clientX e - bBox_left bBox - 60 = 0 \<and> clientY e - bBox_top bBox - 60 = 0)"
proof -
  let ?dx = "clientX e - bBox_left bBox - 60" and ?dy = "clientY e - bBox_top bBox - 60"
  have hp: "HALF FieldPercent = 60" by (simp add: FieldPercent_def)
  show ?thesis
  proof (cases "?dx = 0 \<and> ?dy = 0")
    case True
    then show ?thesis by (simp add: onMouseMove_percent64_def hp rawAngle_center)
  next
    case False
    then show ?thesis
      using rawAngle_eq [OF False, of FieldPercent]
      by (simp add: onMouseMove_percent64_def hp Let_def)
  qed
qed









section \<open>From a value to the handle and back\<close>

lemma updateGraph_point:
  "\<exists>g. updateGraph cfg True (Fin v) = Some g
     \<and> x2 g = Fin (HALF cfg + cos (pointRadians cfg v) * RADIUS cfg)
     \<and> y2 g = Fin (HALF cfg - sin (pointRadians cfg v) * RADIUS cfg)"
  by (simp add: updateGraph_def toRadians_def js_gt_def js_sub_def Let_def pointRadians_def)

lemma arctan_tan_cos_sin:
  assumes "cos t \<noteq> 0"
  shows "cos (arctan (sin t / cos t)) = \<bar>cos t\<bar>"
    and "sin (arctan (sin t / cos t)) = sin t / cos t * \<bar>cos t\<bar>"
proof -
  have "(cos t)\<^sup>2 + (sin t)\<^sup>2 = 1" by (simp add: add.commute)
  then have "1 + (sin t / cos t)\<^sup>2 = 1 / (cos t)\<^sup>2"
    using assms by (simp add: power_divide field_simps)
  then have "sqrt (1 + (sin t / cos t)\<^sup>2) = 1 / \<bar>cos t\<bar>"
    by (simp add: real_sqrt_divide)
  then show "cos (arctan (sin t / cos t)) = \<bar>cos t\<bar>"
    and "sin (arctan (sin t / cos t)) = sin t / cos t * \<bar>cos t\<bar>"
    by (simp_all add: cos_arctan sin_arctan)
qed

lemma quadrant_same_direction:
  assumes R: "0 < R"
  shows "cos (quadrantDegrees (cos t * R) (- (sin t * R)) * pi / 180) = cos t
       \<and> sin (quadrantDegrees (cos t * R) (- (sin t * R)) * pi / 180) = sin t"
proof (cases "cos t = 0")
  case True
  then have "(sin t)\<^sup>2 = 1" using sin_cos_squared_add [of t] by simp
  then have s: "sin t = 1 \<or> sin t = - 1" by (simp add: power2_eq_1_iff)
  have c270: "cos (270 * pi / 180) = 0" "sin (270 * pi / 180) = - 1"
  proof -
    have e: "270 * pi / 180 = pi / 2 + pi" by simp
    show "cos (270 * pi / 180) = 0" "sin (270 * pi / 180) = - 1"
      unfolding e by (simp_all only: cos_periodic_pi sin_periodic_pi cos_pi_half sin_pi_half
          minus_zero)
  qed
  have c90: "cos (90 * pi / 180) = 0" "sin (90 * pi / 180) = 1"
  proof -
    have e: "90 * pi / 180 = pi / 2" by simp
    show "cos (90 * pi / 180) = 0" "sin (90 * pi / 180) = 1"
      unfolding e by simp_all
  qed
  from s show ?thesis
  proof
    assume "sin t = 1"
    then show ?thesis using True R c90 by (simp add: quadrantDegrees_def atanDegrees_def)
  next
    assume "sin t = - 1"
    then show ?thesis using True R c270 by (simp add: quadrantDegrees_def atanDegrees_def)
  qed
next
  case False
  then have nz: "cos t \<noteq> 0" by simp
  let ?a = "arctan (sin t / cos t)"
  have q: "- (- (sin t * R)) / (cos t * R) = sin t / cos t" using R by simp
  have ad: "atanDegrees (cos t * R) (- (sin t * R)) = ?a * 180 / pi"
    using nz R q by (simp add: atanDegrees_def)
  have rad: "\<And>z. (?a * 180 / pi + z) * pi / 180 = ?a + z * pi / 180"
    by (simp add: field_simps)
  show ?thesis
  proof (cases "cos t < 0")
    case True
    then have dx: "cos t * R < 0" using R by (simp add: mult_neg_pos)
    have e: "quadrantDegrees (cos t * R) (- (sin t * R)) * pi / 180 = ?a + pi"
      using dx ad rad [of 180] by (simp add: quadrantDegrees_def)
    have "cos (?a + pi) = cos t" "sin (?a + pi) = sin t"
      using arctan_tan_cos_sin [OF nz] True by simp_all
    then show ?thesis by (simp only: e)
  next
    case False
    then have pos: "0 < cos t" using nz by simp
    then have dx: "\<not> cos t * R < 0" using R by (simp add: mult_less_0_iff)
    have cs: "cos ?a = cos t" "sin ?a = sin t"
      using arctan_tan_cos_sin [OF nz] pos by simp_all
    show ?thesis
    proof (cases "- (sin t * R) > 0")
      case True
      then have e: "quadrantDegrees (cos t * R) (- (sin t * R)) * pi / 180 = ?a + 2 * pi"
        using dx ad rad [of 360] by (simp add: quadrantDegrees_def)
      show ?thesis by (simp only: e cos_periodic sin_periodic cs)
    next
      case False
      then have e: "quadrantDegrees (cos t * R) (- (sin t * R)) * pi / 180 = ?a"
        using dx ad rad [of 0] by (simp add: quadrantDegrees_def)
      show ?thesis by (simp only: e cs)
    qed
  qed
qed

lemma quadrant_congruent:
  assumes "0 < R"
  shows "\<exists>n::int. quadrantDegrees (cos t * R) (- (sin t * R)) = t * 180 / pi + 360 * of_int n"
proof -
  let ?q = "quadrantDegrees (cos t * R) (- (sin t * R))"
  have "sin (?q * pi / 180) = sin t \<and> cos (?q * pi / 180) = cos t"
    using quadrant_same_direction [OF assms, of t] by simp
  then obtain n :: int where n: "?q * pi / 180 = t + 2 * pi * of_int n"
    using sin_cos_eq_iff [of "?q * pi / 180" t] by blast
  have "?q = (?q * pi / 180) * 180 / pi" by simp
  also have "\<dots> = (t + 2 * pi * of_int n) * 180 / pi" by (simp only: n)
  also have "\<dots> = t * 180 / pi + 360 * of_int n" by (simp add: field_simps)
  finally show ?thesis by blast
qed

lemma rounding_error:
  assumes "R \<noteq> 0"
  shows "\<bar>of_int \<lfloor>a / R + 1 / 2\<rfloor> * R - a\<bar> \<le> \<bar>R\<bar> / 2"
proof -
  let ?z = "a / R"
  let ?d = "of_int \<lfloor>?z + 1 / 2\<rfloor> - ?z"
  have "- (1 / 2) < ?d" "?d \<le> 1 / 2" by linarith+
  then have d: "\<bar>?d\<bar> \<le> 1 / 2" by linarith
  have "of_int \<lfloor>?z + 1 / 2\<rfloor> * R - a = ?d * R"
    using assms by (simp add: algebra_simps)
  then have "\<bar>of_int \<lfloor>?z + 1 / 2\<rfloor> * R - a\<bar> = \<bar>?d\<bar> * \<bar>R\<bar>"
    by (simp only: abs_mult)
  also have "\<dots> \<le> (1 / 2) * \<bar>R\<bar>"
    using d by (intro mult_right_mono) simp_all
  finally show ?thesis by simp
qed

lemma pointRadians_degrees:
  "pointRadians cfg v * 180 / pi =
     (if CLOCKWISE cfg then OFFSET cfg - fmod v 360 else fmod v 360 + OFFSET cfg)"
  by (simp add: pointRadians_def field_simps)

lemma rawAngle_congruent:
  assumes R: "0 < R"
  shows "\<exists>m::int. rawAngle cfg (cos (pointRadians cfg v) * R) (- (sin (pointRadians cfg v) * R))
           = Some (Fin (v + 360 * of_int m))"
proof -
  let ?t = "pointRadians cfg v"
  let ?q = "quadrantDegrees (cos ?t * R) (- (sin ?t * R))"
  have "\<not> (cos ?t = 0 \<and> sin ?t = 0)"
  proof
    assume "cos ?t = 0 \<and> sin ?t = 0"
    then have "(sin ?t)\<^sup>2 + (cos ?t)\<^sup>2 = 0" by simp
    then show False using sin_cos_squared_add [of ?t] by linarith
  qed
  then have nc: "\<not> (cos ?t * R = 0 \<and> - (sin ?t * R) = 0)" using R by simp
  obtain n :: int where n: "?q = ?t * 180 / pi + 360 * of_int n"
    using quadrant_congruent [OF R, of ?t] by blast
  define q where "q = ?q"
  have q: "q = (if CLOCKWISE cfg then OFFSET cfg - fmod v 360 else fmod v 360 + OFFSET cfg)
             + 360 * of_int n"
    by (simp only: q_def n pointRadians_degrees)
  have f: "fmod v 360 = v - 360 * of_int (trunc (v / 360))" by (simp add: fmod_def)
  have raw: "rawAngle cfg (cos ?t * R) (- (sin ?t * R)) =
     Some (Fin (if CLOCKWISE cfg then OFFSET cfg + 360 - q else q - OFFSET cfg))"
    unfolding q_def by (rule rawAngle_eq [OF nc])
  show ?thesis
  proof (cases "CLOCKWISE cfg")
    case True
    then have "OFFSET cfg + 360 - q = v + 360 * of_int (1 - n - trunc (v / 360))"
      using q f by (simp add: algebra_simps)
    then have "rawAngle cfg (cos ?t * R) (- (sin ?t * R))
        = Some (Fin (v + 360 * of_int (1 - n - trunc (v / 360))))"
      using raw True by (simp only: if_True)
    then show ?thesis by blast
  next
    case False
    then have "q - OFFSET cfg = v + 360 * of_int (n - trunc (v / 360))"
      using q f by (simp add: algebra_simps)
    then have "rawAngle cfg (cos ?t * R) (- (sin ?t * R))
        = Some (Fin (v + 360 * of_int (n - trunc (v / 360))))"
      using raw False by (simp only: if_False)
    then show ?thesis by blast
  qed
qed

text \<open>
  C2. For every finite value \<open>v\<close> and every configuration with a dial of positive
  radius, the redraw places the handle at the centre plus the radius times
  \<open>(cos, -sin)\<close> of the effective angle \<open>v % 360 + OFFSET\<close>, mirrored about the offset
  axis when clockwise; the angle that the mouse-move handler computes from that point's
  offset from the centre is within half a rounding step of \<open>v\<close> plus a multiple of 360.
\<close>

theorem point_roundtrip:
  assumes "0 < RADIUS cfg"
  shows "\<exists>g x y r k. updateGraph cfg True (Fin v) = Some g \<and> x2 g = Fin x \<and> y2 g = Fin y
           \<and> mouseAngle cfg (x - HALF cfg) (y - HALF cfg) = Some (Fin r)
           \<and> \<bar>r - (v + 360 * of_int (k::int))\<bar> \<le> \<bar>ROUND cfg\<bar> / 2"
proof -
  let ?t = "pointRadians cfg v"
  let ?x = "HALF cfg + cos ?t * RADIUS cfg" and ?y = "HALF cfg - sin ?t * RADIUS cfg"
  obtain g where g: "updateGraph cfg True (Fin v) = Some g" "x2 g = Fin ?x" "y2 g = Fin ?y"
    using updateGraph_point [of cfg v] by blast
  have off: "?x - HALF cfg = cos ?t * RADIUS cfg" "?y - HALF cfg = - (sin ?t * RADIUS cfg)"
    by simp_all
  obtain m :: int where m: "rawAngle cfg (?x - HALF cfg) (?y - HALF cfg) =
      Some (Fin (v + 360 * of_int m))"
    unfolding off using rawAngle_congruent [OF assms, of cfg v] by blast
  let ?a = "v + 360 * of_int m"
  let ?r = "if ROUND cfg \<noteq> 0 then of_int \<lfloor>?a / ROUND cfg + 1 / 2\<rfloor> * ROUND cfg else ?a"
  have ma: "mouseAngle cfg (?x - HALF cfg) (?y - HALF cfg) = Some (Fin ?r)"
    by (simp only: mouseAngle_def m option.case roundAngle_Fin)
  have "\<bar>?r - ?a\<bar> \<le> \<bar>ROUND cfg\<bar> / 2"
  proof (cases "ROUND cfg = 0")
    case True
    then show ?thesis by simp
  next
    case False
    then show ?thesis using rounding_error [OF False, of ?a] by simp
  qed
  then show ?thesis using g ma by blast
qed

theorem point_roundtrip_witness:
  "0 < RADIUS FieldUntiangle \<and> 0 < RADIUS FieldPercent
   \<and> (\<exists>g x y r k. updateGraph FieldUntiangle True (Fin 200) = Some g
         \<and> x2 g = Fin x \<and> y2 g = Fin y
         \<and> mouseAngle FieldUntiangle (x - HALF FieldUntiangle) (y - HALF FieldUntiangle)
             = Some (Fin r)
         \<and> \<bar>r - (200 + 360 * of_int (k::int))\<bar> \<le> \<bar>ROUND FieldUntiangle\<bar> / 2)
   \<and> (\<exists>g x y r k. updateGraph FieldPercent True (Fin 200) = Some g
         \<and> x2 g = Fin x \<and> y2 g = Fin y
         \<and> mouseAngle FieldPercent (x - HALF FieldPercent) (y - HALF FieldPercent)
             = Some (Fin r)
         \<and> \<bar>r - (200 + 360 * of_int (k::int))\<bar> \<le> \<bar>ROUND FieldPercent\<bar> / 2)"
proof -
  have u: "0 < RADIUS FieldUntiangle" by (simp add: RADIUS_def FieldUntiangle_def)
  have p: "0 < RADIUS FieldPercent" by (simp add: RADIUS_def FieldPercent_def)
  show ?thesis
    using u p point_roundtrip [OF u, of 200] point_roundtrip [OF p, of 200] by blast
qed

end
